theory Spec2Isabelle
  imports Complex_Main
begin

section \<open>url-fetch: fetching a URL, a file or stdin into a blob\<close>

text \<open>
  The program is \<^verbatim>\<open>samples/go/url-fetch/fetch.go\<close>: one \<^verbatim>\<open>main\<close> routine that
  talks to the command line, the dataset store, the HTTP client and the file system.
  The model makes every answer of these collaborators a field of a record \<open>world\<close>,
  and every call that can be observed from outside an \<open>event\<close>; a run is the list of
  its events together with the way the process ends.
\<close>

subsection \<open>Values exchanged with the collaborators\<close>

text \<open>A Go \<^verbatim>\<open>error\<close> is kept as the text that \<^verbatim>\<open>%s\<close> prints for it.\<close>

type_synonym error = string

text \<open>
  The error of \<^verbatim>\<open>db.Commit\<close> is only ever compared with \<^verbatim>\<open>datas.ErrMergeNeeded\<close>,
  so it is a type of its own with that value distinguished.
\<close>

datatype commit_error = ErrMergeNeeded | CommitFailure string

text \<open>A content address, as \<^verbatim>\<open>Hash.String()\<close> prints it.\<close>

type_synonym hash = string

text \<open>The anonymous struct \<^verbatim>\<open>root.Meta\<close>; every field is \<^verbatim>\<open>""\<close> until unmarshalled.\<close>

record meta =
  Etag :: string
  File :: string
  URL :: string

definition zero_meta :: meta where
  "zero_meta = \<lparr>Etag = [], File = [], URL = []\<rparr>"

text \<open>
  What the program reads of an \<^verbatim>\<open>http.Response\<close>. \<open>EtagHeader\<close> is
  \<^verbatim>\<open>resp.Header.Get("Etag")\<close>, which is \<^verbatim>\<open>""\<close> for an absent header.
\<close>

record response =
  StatusCode :: int
  Status :: string
  ContentLength :: int
  EtagHeader :: string

text \<open>The command line after \<^verbatim>\<open>flag.Parse\<close>.\<close>

record flags =
  noProgress :: bool
  performCommit :: bool
  stdin :: bool
  args :: "string list"

definition NArg :: "flags \<Rightarrow> nat" where
  "NArg fl = length (args fl)"

text \<open>\<^verbatim>\<open>flag.Arg(i)\<close> is the empty string when the argument does not exist.\<close>

definition Arg :: "flags \<Rightarrow> nat \<Rightarrow> string" where
  "Arg fl i = (if i < length (args fl) then args fl ! i else [])"

text \<open>
  The answers of the collaborators. \<open>dsHead\<close> is \<open>None\<close> when the dataset has no
  head, \<open>Some (Inl err)\<close> when \<^verbatim>\<open>marshal.Unmarshal\<close> of the head fails and
  \<open>Some (Inr m)\<close> when it fills \<^verbatim>\<open>root.Meta\<close> with \<open>m\<close>. The answer of the HTTP
  client may depend on the URL and on the request headers.
\<close>

datatype reader =
    Stdin
  | Body string
  | FileReader string
  | Progress reader int

record world =
  getDataset :: "string \<Rightarrow> error option"
  dsHead :: "(error + meta) option"
  newRequest :: "string \<Rightarrow> error option"
  httpDo :: "string \<Rightarrow> (string \<rightharpoonup> string) \<Rightarrow> error + response"
  osOpen :: "string \<Rightarrow> error option"
  fStat :: "string \<Rightarrow> error + int"
  newBlob :: "reader \<Rightarrow> hash"
  createCommitMeta :: "(string \<rightharpoonup> string) \<Rightarrow> error option"
  commit :: "hash \<Rightarrow> (string \<rightharpoonup> string) \<Rightarrow> commit_error option"

subsection \<open>Observable events and the end of the process\<close>

datatype event =
    Stderr string
  | Stdout string
  | Usage
  | HttpGet string "string \<rightharpoonup> string"
  | OpenFile string
  | StatFile string
  | NewBlob reader
  | CreateCommitMeta "string \<rightharpoonup> string"
  | Commit hash "string \<rightharpoonup> string" "commit_error option"
  | WriteValue hash
  | ChkFailed commit_error commit_error
  | StatusDone
  | StatusClear
  | DbClose

text \<open>
  \<open>Returned\<close>: \<^verbatim>\<open>main\<close> returned, which in Go ends the process with status 0.

  Modelled from the spec: \<^verbatim>\<open>exit.Fail\<close> (package \<^verbatim>\<open>util/exit\<close>) is missing from
  the sources; the spec says of the paths that call it that the program "exits with a
  non-zero status", which is \<open>ExitFail\<close>.

  Modelled from the spec: \<^verbatim>\<open>d.Chk\<close> is missing from the sources; a failed
  \<^verbatim>\<open>d.Chk.Equal\<close> is taken to stop the run at once (\<open>Panicked\<close>) and to report
  both of its operands, as the spec says of a commit failure that is not a conflict:
  "fatal and reported verbatim".
\<close>

datatype outcome = Returned | ExitFail | Panicked

definition exit_status :: "outcome \<Rightarrow> int" where
  "exit_status out = (case out of Returned \<Rightarrow> 0 | ExitFail \<Rightarrow> 1 | Panicked \<Rightarrow> 2)"

subsection \<open>Library helpers the program calls\<close>

text \<open>\<^verbatim>\<open>strings.HasPrefix\<close>.\<close>

definition HasPrefix :: "string \<Rightarrow> string \<Rightarrow> bool" where
  "HasPrefix s p = (length p \<le> length s \<and> take (length p) s = p)"

text \<open>Go's integer division truncates towards zero.\<close>

definition go_quot :: "int \<Rightarrow> int \<Rightarrow> int" where
  "go_quot a b = sgn a * sgn b * (\<bar>a\<bar> div \<bar>b\<bar>)"

text \<open>The verb \<^verbatim>\<open>%d\<close> of \<^verbatim>\<open>fmt\<close>: decimal digits, with a minus sign below zero.\<close>

function utoa :: "nat \<Rightarrow> string" where
  "utoa n = (if n < 10 then [''0123456789'' ! n]
             else utoa (n div 10) @ [''0123456789'' ! (n mod 10)])"
  by pat_completeness auto
termination
  by (relation "measure (\<lambda>n. n)") auto

declare utoa.simps [simp del]

definition itoa :: "int \<Rightarrow> string" where
  "itoa i = (if i < 0 then CHR ''-'' # utoa (nat (- i)) else utoa (nat i))"

definition nl :: string where
  "nl = [CHR 0x0A]"

definition quote :: string where
  "quote = [CHR 0x27]"

subsection \<open>The run\<close>

text \<open>
  A phase of \<^verbatim>\<open>main\<close> gives its events and either the end of the process
  (\<open>Inl\<close>, for every \<^verbatim>\<open>return\<close> and \<^verbatim>\<open>exit.Fail()\<close>) or the value the next phase
  goes on with (\<open>Inr\<close>).
\<close>

type_synonym 'a phase = "event list \<times> (outcome + 'a)"

text \<open>Lines 62 to 75: \<^verbatim>\<open>root\<close> starts zeroed and is filled from the head, if any.\<close>

definition loadHead :: "world \<Rightarrow> meta phase" where
  "loadHead w =
     (case dsHead w of
        None \<Rightarrow> ([], Inr zero_meta)
      | Some (Inl err) \<Rightarrow> ([Stderr (''Could not unmarshal head: '' @ err @ nl)], Inl Returned)
      | Some (Inr m) \<Rightarrow> ([], Inr m))"

text \<open>The three variables lines 77 to 132 assign: \<^verbatim>\<open>r\<close>, \<^verbatim>\<open>contentLength\<close>, \<^verbatim>\<open>additionalMetaInfo\<close>.\<close>

record descriptor =
  r :: reader
  contentLength :: int
  additionalMetaInfo :: "string \<rightharpoonup> string"

text \<open>Lines 88 to 90: the headers of the request.\<close>

definition requestHeader :: "meta \<Rightarrow> string \<Rightarrow> (string \<rightharpoonup> string)" where
  "requestHeader rootMeta url =
     (if URL rootMeta = url \<and> Etag rootMeta \<noteq> [] then [''If-None-Match'' \<mapsto> Etag rootMeta]
      else Map.empty)"

text \<open>Lines 82 to 114: the HTTP branch.\<close>

definition fetchHttp :: "world \<Rightarrow> meta \<Rightarrow> string \<Rightarrow> descriptor phase" where
  "fetchHttp w rootMeta url =
     (case newRequest w url of
        Some err \<Rightarrow>
          ([Stderr (''Could not build http request for url '' @ url @ '', error: '' @ err @ nl)],
           Inl Returned)
      | None \<Rightarrow>
          (let hdr = requestHeader rootMeta url in
           case httpDo w url hdr of
             Inl err \<Rightarrow>
               ([HttpGet url hdr,
                 Stderr (''Could not fetch url '' @ url @ '', error: '' @ err @ nl)],
                Inl Returned)
           | Inr resp \<Rightarrow>
               if StatusCode resp = 304 then
                 ([HttpGet url hdr,
                   Stdout ''Content unchanged since last fetch, no commit made''],
                  Inl Returned)
               else if go_quot (StatusCode resp) 100 = 4 \<or> go_quot (StatusCode resp) 100 = 5 then
                 ([HttpGet url hdr,
                   Stderr (''Could not fetch url '' @ url @ '', error: ''
                           @ itoa (StatusCode resp) @ '' ('' @ Status resp @ '')'' @ nl)],
                  Inl Returned)
               else
                 ([HttpGet url hdr],
                  Inr \<lparr>r = Body url,
                       contentLength = ContentLength resp,
                       additionalMetaInfo =
                         (if EtagHeader resp \<noteq> []
                          then [''url'' \<mapsto> url, ''etag'' \<mapsto> EtagHeader resp]
                          else [''url'' \<mapsto> url])\<rparr>)))"

text \<open>Lines 116 to 131: the file branch.\<close>

definition openFile :: "world \<Rightarrow> string \<Rightarrow> descriptor phase" where
  "openFile w url =
     (case osOpen w url of
        Some err \<Rightarrow>
          ([OpenFile url,
            Stderr (''Invalid URL '' @ url @ '' - does not start with '' @ quote @ ''http''
                    @ quote @ '' and isn'' @ quote @ ''t local file either. fopen error: ''
                    @ err)],
           Inl Returned)
      | None \<Rightarrow>
          (case fStat w url of
             Inl err \<Rightarrow>
               ([OpenFile url, StatFile url,
                 Stderr (''Could not stat file '' @ url @ '': '' @ err)],
                Inl Returned)
           | Inr sz \<Rightarrow>
               ([OpenFile url, StatFile url],
                Inr \<lparr>r = FileReader url,
                     contentLength = sz,
                     additionalMetaInfo = [''file'' \<mapsto> url]\<rparr>)))"

text \<open>Lines 77 to 132: which of the three sources is read.\<close>

definition resolveSource :: "world \<Rightarrow> flags \<Rightarrow> meta \<Rightarrow> descriptor phase" where
  "resolveSource w fl rootMeta =
     (if stdin fl then
        ([], Inr \<lparr>r = Stdin, contentLength = - 1, additionalMetaInfo = Map.empty\<rparr>)
      else if HasPrefix (Arg fl 0) ''http'' then fetchHttp w rootMeta (Arg fl 0)
      else openFile w (Arg fl 0))"

text \<open>
  Lines 134 to 157. The blob is identified by its content address; the progress reader
  hands on the bytes of the reader it wraps, so the blob is that of the wrapped reader.
  The commit metadata struct is identified by the map it is built from.
\<close>

definition finalize :: "world \<Rightarrow> flags \<Rightarrow> descriptor \<Rightarrow> event list \<times> outcome" where
  "finalize w fl d =
     (let r' = (if \<not> noProgress fl then Progress (r d) (contentLength d) else r d);
          b = newBlob w (r d)
      in if performCommit fl then
           (case createCommitMeta w (additionalMetaInfo d) of
              Some err \<Rightarrow>
                ([NewBlob r', CreateCommitMeta (additionalMetaInfo d),
                  Stderr (''error: '' @ err @ nl)],
                 ExitFail)
            | None \<Rightarrow>
                (case commit w b (additionalMetaInfo d) of
                   Some err \<Rightarrow>
                     if ErrMergeNeeded \<noteq> err then
                       ([NewBlob r', CreateCommitMeta (additionalMetaInfo d),
                         Commit b (additionalMetaInfo d) (Some err),
                         ChkFailed ErrMergeNeeded err],
                        Panicked)
                     else
                       ([NewBlob r', CreateCommitMeta (additionalMetaInfo d),
                         Commit b (additionalMetaInfo d) (Some err),
                         Stderr ''Could not commit, optimistic concurrency failed.''],
                        Returned)
                 | None \<Rightarrow>
                     ([NewBlob r', CreateCommitMeta (additionalMetaInfo d),
                       Commit b (additionalMetaInfo d) None]
                      @ (if \<not> noProgress fl then [StatusDone] else []),
                      Returned)))
         else
           ([NewBlob r', WriteValue b]
            @ (if \<not> noProgress fl then [StatusClear] else [])
            @ [Stdout (''#'' @ b @ nl)],
            Returned))"

text \<open>Lines 59 to 157: what runs between \<^verbatim>\<open>defer db.Close()\<close> and the end.\<close>

definition body :: "world \<Rightarrow> flags \<Rightarrow> event list \<times> outcome" where
  "body w fl =
     (case loadHead w of
        (es1, Inl out) \<Rightarrow> (es1, out)
      | (es1, Inr rootMeta) \<Rightarrow>
          (case resolveSource w fl rootMeta of
             (es2, Inl out) \<Rightarrow> (es1 @ es2, out)
           | (es2, Inr d) \<Rightarrow>
               (case finalize w fl d of (es3, out) \<Rightarrow> (es1 @ es2 @ es3, out))))"

text \<open>
  The whole of \<^verbatim>\<open>main\<close>. The deferred \<^verbatim>\<open>db.Close()\<close> runs when the body returns
  or panics, and not when the process exits through \<^verbatim>\<open>exit.Fail()\<close>.
  \<^verbatim>\<open>d.CheckErrorNoUsage\<close> prints \<^verbatim>\<open>error: %s\<close> and calls \<^verbatim>\<open>exit.Fail()\<close>.
\<close>

definition main :: "world \<Rightarrow> flags \<Rightarrow> event list \<times> outcome" where
  "main w fl =
     (if \<not> (stdin fl \<and> NArg fl = 1) \<and> NArg fl \<noteq> 2 then ([Usage], ExitFail)
      else
        (case getDataset w (Arg fl (NArg fl - 1)) of
           Some err \<Rightarrow> ([Stderr (''error: '' @ err @ nl)], ExitFail)
         | None \<Rightarrow>
             (case body w fl of
                (es, out) \<Rightarrow> (if out = ExitFail then (es, out) else (es @ [DbClose], out)))))"

subsection \<open>The status line\<close>

text \<open>
  \<^verbatim>\<open>getStatusPrinter\<close> computes with \<^verbatim>\<open>float64\<close>. A \<^verbatim>\<open>float64\<close> is kept as the real
  number it stands for, or as one of the three values that are no number; finite results
  are not rounded, and zero is not signed (the durations here are never below zero).
\<close>

datatype float64 = Fin real | PosInf | NegInf | NaN

text \<open>The conversion \<^verbatim>\<open>float64(seenLen)\<close> of a \<^verbatim>\<open>uint64\<close>.\<close>

definition float64_of_uint64 :: "nat \<Rightarrow> float64" where
  "float64_of_uint64 n = Fin (real n)"

text \<open>\<^verbatim>\<open>Duration.Seconds\<close>: a \<^verbatim>\<open>time.Duration\<close> is a number of nanoseconds.\<close>

definition Seconds :: "int \<Rightarrow> float64" where
  "Seconds d = Fin (real_of_int d / 1000000000)"

text \<open>
  The operator \<^verbatim>\<open>/\<close> on \<^verbatim>\<open>float64\<close>, which does not fault: a number that is not
  zero divided by zero is an infinity, and zero divided by zero is \<open>NaN\<close>.
\<close>

fun fdiv :: "float64 \<Rightarrow> float64 \<Rightarrow> float64" where
  "fdiv NaN _ = NaN"
| "fdiv _ NaN = NaN"
| "fdiv (Fin x) (Fin y) =
     (if y = 0 then (if x = 0 then NaN else if 0 < x then PosInf else NegInf)
      else Fin (x / y))"
| "fdiv (Fin x) PosInf = Fin 0"
| "fdiv (Fin x) NegInf = Fin 0"
| "fdiv PosInf (Fin y) = (if 0 \<le> y then PosInf else NegInf)"
| "fdiv NegInf (Fin y) = (if 0 \<le> y then NegInf else PosInf)"
| "fdiv PosInf PosInf = NaN"
| "fdiv PosInf NegInf = NaN"
| "fdiv NegInf PosInf = NaN"
| "fdiv NegInf NegInf = NaN"

text \<open>
  The conversion \<^verbatim>\<open>uint64(f)\<close> discards the fraction. When the result does not fit
  (also for an infinity and for \<open>NaN\<close>) the conversion succeeds with a value that
  depends on the implementation of Go: that value is the parameter \<open>cvt\<close>.
\<close>

definition uint64_of_float64 :: "(float64 \<Rightarrow> nat) \<Rightarrow> float64 \<Rightarrow> nat" where
  "uint64_of_float64 cvt f =
     (case f of
        Fin x \<Rightarrow> if - 1 < x \<and> x < 18446744073709551616 then nat \<lfloor>x\<rfloor> else cvt f
      | _ \<Rightarrow> cvt f)"

text \<open>
  Lines 169 and 170, with \<open>elapsed\<close> the value of \<^verbatim>\<open>time.Now().Sub(start)\<close>.
\<close>

definition rate :: "(float64 \<Rightarrow> nat) \<Rightarrow> int \<Rightarrow> nat \<Rightarrow> nat" where
  "rate cvt elapsed seenLen =
     uint64_of_float64 cvt (fdiv (float64_of_uint64 seenLen) (Seconds elapsed))"

text \<open>
  Lines 160 to 178: the line that the callback hands to \<^verbatim>\<open>status.Printf\<close>.
  \<open>Bytes\<close> is \<^verbatim>\<open>human.Bytes\<close>, which is not part of the program.
\<close>

definition getStatusPrinter ::
    "(nat \<Rightarrow> string) \<Rightarrow> (float64 \<Rightarrow> nat) \<Rightarrow> int \<Rightarrow> int \<Rightarrow> nat \<Rightarrow> string" where
  "getStatusPrinter Bytes cvt expectedLen elapsed seenLen =
     (let expected = (if expectedLen < 0 then ''(unknown)'' else Bytes (nat expectedLen))
      in Bytes seenLen @ '' of '' @ expected @ '' written in ''
         @ utoa (uint64_of_float64 cvt (Seconds elapsed)) @ ''s (''
         @ Bytes (rate cvt elapsed seenLen) @ ''/s)...'')"

text \<open>
  On amd64 the conversion of \<open>+Inf\<close> and of \<open>NaN\<close> to \<^verbatim>\<open>uint64\<close> gives
  \<open>2^63\<close>.
\<close>

definition cvt_amd64 :: "float64 \<Rightarrow> nat" where
  "cvt_amd64 f = 9223372036854775808"

subsection \<open>Reading a run\<close>

text \<open>The events that put something into the store.\<close>

fun is_write :: "event \<Rightarrow> bool" where
  "is_write (NewBlob _) = True"
| "is_write (CreateCommitMeta _) = True"
| "is_write (Commit _ _ _) = True"
| "is_write (WriteValue _) = True"
| "is_write _ = False"

fun is_commit :: "event \<Rightarrow> bool" where
  "is_commit (Commit _ _ _) = True"
| "is_commit _ = False"

fun is_http :: "event \<Rightarrow> bool" where
  "is_http (HttpGet _ _) = True"
| "is_http _ = False"

fun is_file :: "event \<Rightarrow> bool" where
  "is_file (OpenFile _) = True"
| "is_file (StatFile _) = True"
| "is_file _ = False"

text \<open>
  Modelled from the spec: the store itself (\<^verbatim>\<open>db.Commit\<close>, \<^verbatim>\<open>db.WriteValue\<close>) is
  missing from the sources. The spec says that a commit that succeeds makes the blob
  "the new version built on top of the dataset's current head", and that a value
  write puts the value into the store "without advancing any named version pointer".
\<close>

record store =
  looseValues :: "hash set"
  headPtr :: "hash option"

fun effect :: "event \<Rightarrow> store \<Rightarrow> store" where
  "effect (Commit b m None) st = st\<lparr>headPtr := Some b\<rparr>"
| "effect (WriteValue b) st = st\<lparr>looseValues := insert b (looseValues st)\<rparr>"
| "effect _ st = st"

definition store_after :: "event list \<Rightarrow> store \<Rightarrow> store" where
  "store_after es st = fold effect es st"

text \<open>
  The run passes the argument check, resolves its dataset and reads the stored
  metadata \<open>rootMeta\<close> (zeroed when there is no head): it gets as far as line 77.
\<close>

definition starts :: "world \<Rightarrow> flags \<Rightarrow> meta \<Rightarrow> bool" where
  "starts w fl rootMeta =
     (((stdin fl \<and> NArg fl = 1) \<or> NArg fl = 2)
      \<and> getDataset w (Arg fl (NArg fl - 1)) = None
      \<and> loadHead w = ([], Inr rootMeta))"

text \<open>HTTP mode: the run starts, without \<^verbatim>\<open>--stdin\<close>, on a \<open>url\<close> that begins with \<^verbatim>\<open>http\<close>.\<close>

definition http_mode :: "world \<Rightarrow> flags \<Rightarrow> meta \<Rightarrow> string \<Rightarrow> bool" where
  "http_mode w fl rootMeta url =
     (starts w fl rootMeta \<and> \<not> stdin fl \<and> url = Arg fl 0 \<and> HasPrefix url ''http'')"

text \<open>File mode: the run starts, without \<^verbatim>\<open>--stdin\<close>, on any other argument.\<close>

definition file_mode :: "world \<Rightarrow> flags \<Rightarrow> meta \<Rightarrow> string \<Rightarrow> bool" where
  "file_mode w fl rootMeta url =
     (starts w fl rootMeta \<and> \<not> stdin fl \<and> url = Arg fl 0 \<and> \<not> HasPrefix url ''http'')"

subsection \<open>Sample runs\<close>

definition sample_response :: "int \<Rightarrow> string \<Rightarrow> response" where
  "sample_response code st =
     \<lparr>StatusCode = code, Status = st, ContentLength = 5, EtagHeader = ''v2''\<rparr>"

definition sample_world :: "(error + meta) option \<Rightarrow> error + response \<Rightarrow> commit_error option \<Rightarrow> world" where
  "sample_world h resp c =
     \<lparr>getDataset = (\<lambda>_. None),
      dsHead = h,
      newRequest = (\<lambda>_. None),
      httpDo = (\<lambda>_ _. resp),
      osOpen = (\<lambda>p. if p = ''/tmp/data'' \<or> p = ''/tmp/odd'' then None else Some ''no such file''),
      fStat = (\<lambda>p. if p = ''/tmp/data'' then Inr 5 else Inl ''bad descriptor''),
      newBlob = (\<lambda>_. ''8vbfm3''),
      createCommitMeta = (\<lambda>_. None),
      commit = (\<lambda>_ _. c)\<rparr>"

definition sample_flags :: "bool \<Rightarrow> bool \<Rightarrow> string list \<Rightarrow> flags" where
  "sample_flags c s as = \<lparr>noProgress = False, performCommit = c, stdin = s, args = as\<rparr>"

definition sample_meta :: "string \<Rightarrow> string \<Rightarrow> meta" where
  "sample_meta u e = \<lparr>Etag = e, File = [], URL = u\<rparr>"

section \<open>Properties of the run\<close>

subsection \<open>Helper lemmas\<close>

lemma starts_main:
  "starts w fl rootMeta \<Longrightarrow> main w fl =
     (case resolveSource w fl rootMeta of
        (es2, Inl out) \<Rightarrow> (if out = ExitFail then (es2, out) else (es2 @ [DbClose], out))
      | (es2, Inr d) \<Rightarrow>
          (if snd (finalize w fl d) = ExitFail then (es2 @ fst (finalize w fl d), ExitFail)
           else (es2 @ fst (finalize w fl d) @ [DbClose], snd (finalize w fl d))))"
  by (auto simp: starts_def main_def body_def split: prod.splits sum.splits)

lemma http_mode_resolve:
  "http_mode w fl rootMeta url \<Longrightarrow> starts w fl rootMeta \<and> resolveSource w fl rootMeta = fetchHttp w rootMeta url"
  by (auto simp: http_mode_def resolveSource_def)

lemma file_mode_resolve:
  "file_mode w fl rootMeta url \<Longrightarrow> starts w fl rootMeta \<and> resolveSource w fl rootMeta = openFile w url"
  by (auto simp: file_mode_def resolveSource_def)

lemma fetchHttp_304:
  assumes "newRequest w url = None"
    and "httpDo w url (requestHeader rootMeta url) = Inr resp"
    and "StatusCode resp = 304"
  shows "fetchHttp w rootMeta url =
     ([HttpGet url (requestHeader rootMeta url),
       Stdout ''Content unchanged since last fetch, no commit made''], Inl Returned)"
  using assms by (simp add: fetchHttp_def)

lemma go_quot_nonneg: "0 \<le> a \<Longrightarrow> 0 < b \<Longrightarrow> go_quot a b = a div b"
  by (cases "a = 0") (simp_all add: go_quot_def)

lemma go_quot_4xx_5xx:
  "400 \<le> c \<Longrightarrow> c \<le> 599 \<Longrightarrow> go_quot c 100 = 4 \<or> go_quot c 100 = 5"
  by (simp add: go_quot_nonneg) presburger

lemma fetchHttp_no_write: "filter is_write (fst (fetchHttp w rootMeta url)) = []"
  by (simp add: fetchHttp_def Let_def split: option.splits sum.splits)

lemma fetchHttp_no_file: "filter is_file (fst (fetchHttp w rootMeta url)) = []"
  by (simp add: fetchHttp_def Let_def split: option.splits sum.splits)

lemma openFile_no_write: "filter is_write (fst (openFile w url)) = []"
  by (simp add: openFile_def split: option.splits sum.splits)

lemma openFile_no_http: "filter is_http (fst (openFile w url)) = []"
  by (simp add: openFile_def split: option.splits sum.splits)

lemma resolveSource_no_write: "filter is_write (fst (resolveSource w fl rootMeta)) = []"
  by (simp add: resolveSource_def fetchHttp_no_write openFile_no_write)

lemma effect_not_write: "\<not> is_write e \<Longrightarrow> effect e st = st"
  by (cases e) simp_all

lemma store_after_no_write: "filter is_write es = [] \<Longrightarrow> store_after es st = st"
  unfolding store_after_def
  by (induction es arbitrary: st) (auto simp: effect_not_write split: if_splits)

lemma store_after_append: "store_after (es @ fs) st = store_after fs (store_after es st)"
  by (simp add: store_after_def)

lemma requestHeader_lookup:
  "requestHeader rootMeta url ''If-None-Match'' =
     (if URL rootMeta = url \<and> Etag rootMeta \<noteq> [] then Some (Etag rootMeta) else None)"
  by (simp add: requestHeader_def)

lemma finalize_no_http: "filter is_http (fst (finalize w fl d)) = []"
  by (simp add: finalize_def Let_def split: option.splits)

lemma fetchHttp_sends:
  "newRequest w url = None \<Longrightarrow>
     \<exists>rest. fst (fetchHttp w rootMeta url) = HttpGet url (requestHeader rootMeta url) # rest
            \<and> filter is_http rest = []"
  by (simp add: fetchHttp_def Let_def split: sum.splits)

lemma main_events:
  "starts w fl rootMeta \<Longrightarrow>
     \<exists>rest. fst (main w fl) = fst (resolveSource w fl rootMeta) @ rest \<and> filter is_http rest = []"
  by (auto simp: starts_main finalize_no_http split: prod.splits sum.splits)

lemma HasPrefix_iff: "HasPrefix s p \<longleftrightarrow> (\<exists>rest. s = p @ rest)"
proof
  assume "HasPrefix s p"
  then have "s = p @ drop (length p) s"
    by (metis HasPrefix_def append_take_drop_id)
  then show "\<exists>rest. s = p @ rest" ..
next
  assume "\<exists>rest. s = p @ rest"
  then show "HasPrefix s p" by (auto simp: HasPrefix_def)
qed

lemma fetchHttp_reader: "snd (fetchHttp w rootMeta url) = Inr d \<Longrightarrow> r d = Body url"
  by (auto simp: fetchHttp_def Let_def split: option.splits sum.splits if_splits)

lemma openFile_reader: "snd (openFile w url) = Inr d \<Longrightarrow> r d = FileReader url"
  by (auto simp: openFile_def split: option.splits sum.splits)

lemma headPtr_no_commit:
  "filter is_commit es = [] \<Longrightarrow> headPtr (store_after es st) = headPtr st"
  unfolding store_after_def
proof (induction es arbitrary: st)
  case Nil
  then show ?case by simp
next
  case (Cons e es)
  then have "\<not> is_commit e" and "filter is_commit es = []"
    by (auto split: if_splits)
  moreover from \<open>\<not> is_commit e\<close> have "headPtr (effect e st) = headPtr st"
    by (cases e) simp_all
  ultimately show ?case using Cons.IH[of "effect e st"] by simp
qed

lemma no_write_no_commit: "filter is_write es = [] \<Longrightarrow> filter is_commit es = []"
proof (induction es)
  case Nil
  then show ?case by simp
next
  case (Cons e es)
  then show ?case by (cases e) (auto split: if_splits)
qed

lemma resolveSource_ok_quiet:
  "resolveSource w fl rootMeta = (es, Inr d) \<Longrightarrow> Stderr s \<notin> set es"
  by (auto simp: resolveSource_def fetchHttp_def openFile_def Let_def
           split: if_splits option.splits sum.splits)

lemma finalize_write_only:
  "\<not> performCommit fl \<Longrightarrow>
     finalize w fl d =
       ([NewBlob (if \<not> noProgress fl then Progress (r d) (contentLength d) else r d),
         WriteValue (newBlob w (r d))]
        @ (if \<not> noProgress fl then [StatusClear] else [])
        @ [Stdout (''#'' @ newBlob w (r d) @ nl)],
        Returned)"
  by (simp add: finalize_def Let_def)

lemma finalize_commit_fails:
  assumes "performCommit fl"
    and "createCommitMeta w (additionalMetaInfo d) = None"
    and "commit w (newBlob w (r d)) (additionalMetaInfo d) = Some err"
  shows "finalize w fl d =
       ([NewBlob (if \<not> noProgress fl then Progress (r d) (contentLength d) else r d),
         CreateCommitMeta (additionalMetaInfo d),
         Commit (newBlob w (r d)) (additionalMetaInfo d) (Some err),
         (if ErrMergeNeeded \<noteq> err then ChkFailed ErrMergeNeeded err
          else Stderr ''Could not commit, optimistic concurrency failed.'')],
        (if ErrMergeNeeded \<noteq> err then Panicked else Returned))"
  using assms by (simp add: finalize_def Let_def)

lemma headPtr_failed_commit:
  "\<not> is_commit e \<Longrightarrow>
   headPtr (store_after (es @ [NewBlob x, CreateCommitMeta m, Commit b m (Some err), e, DbClose]) st)
     = headPtr (store_after es st)"
  by (cases e) (simp_all add: store_after_def)

lemma finalize_no_file: "filter is_file (fst (finalize w fl d)) = []"
  by (simp add: finalize_def Let_def split: option.splits)

lemma main_after_resolve:
  "starts w fl rootMeta \<Longrightarrow>
     \<exists>rest. fst (main w fl) = fst (resolveSource w fl rootMeta) @ rest
            \<and> filter is_http rest = [] \<and> filter is_file rest = []"
  by (auto simp: starts_main finalize_no_http finalize_no_file split: prod.splits sum.splits)

lemma main_resolved:
  "starts w fl rootMeta \<Longrightarrow> resolveSource w fl rootMeta = (es, Inr d) \<Longrightarrow>
     \<exists>rest. fst (main w fl) = es @ fst (finalize w fl d) @ rest"
  by (auto simp: starts_main)

lemma openFile_opens: "\<exists>rest. fst (openFile w url) = OpenFile url # rest"
  by (simp add: openFile_def split: option.splits sum.splits)

lemma fetchHttp_not_built:
  "newRequest w url = Some err \<Longrightarrow>
     fetchHttp w rootMeta url =
       ([Stderr (''Could not build http request for url '' @ url @ '', error: '' @ err @ nl)],
        Inl Returned)"
  by (simp add: fetchHttp_def)

lemma rate_zero_elapsed:
  "rate cvt 0 seenLen = (if seenLen = 0 then cvt NaN else cvt PosInf)"
  by (simp add: rate_def float64_of_uint64_def Seconds_def uint64_of_float64_def)

lemma rate_zero_elapsed_iff:
  "(\<forall>seenLen. rate cvt 0 seenLen = 0) \<longleftrightarrow> cvt PosInf = 0 \<and> cvt NaN = 0"
proof
  assume a: "\<forall>seenLen. rate cvt 0 seenLen = 0"
  from a have "rate cvt 0 0 = 0" and "rate cvt 0 1 = 0" by blast+
  then show "cvt PosInf = 0 \<and> cvt NaN = 0" by (simp add: rate_zero_elapsed)
next
  assume "cvt PosInf = 0 \<and> cvt NaN = 0"
  then show "\<forall>seenLen. rate cvt 0 seenLen = 0" by (simp add: rate_zero_elapsed)
qed

lemma rate_example: "rate cvt 2000000000 10 = 5"
  by (simp add: rate_def float64_of_uint64_def Seconds_def uint64_of_float64_def)

lemmas sample_defs =
  sample_world_def sample_flags_def sample_meta_def sample_response_def
  starts_def http_mode_def file_mode_def NArg_def Arg_def HasPrefix_def loadHead_def
  zero_meta_def

subsection \<open>The claims\<close>

text \<open>
  Claim C1. In HTTP mode, when the server answers 304 Not Modified, the run writes
  nothing to the store (no blob is built, no commit metadata, no commit, no value write),
  prints that the content is unchanged on standard output, and \<^verbatim>\<open>main\<close> returns:
  the process ends with status 0.
\<close>

theorem not_modified_no_write:
  assumes "http_mode w fl rootMeta url"
    and "newRequest w url = None"
    and "httpDo w url (requestHeader rootMeta url) = Inr resp"
    and "StatusCode resp = 304"
  shows "main w fl =
           ([HttpGet url (requestHeader rootMeta url),
             Stdout ''Content unchanged since last fetch, no commit made'',
             DbClose], Returned)
         \<and> filter is_write (fst (main w fl)) = []
         \<and> exit_status (snd (main w fl)) = 0"
proof -
  from http_mode_resolve[OF assms(1)]
  have s: "starts w fl rootMeta" and rs: "resolveSource w fl rootMeta = fetchHttp w rootMeta url"
    by simp_all
  from fetchHttp_304[OF assms(2-4)] starts_main[OF s] rs
  show ?thesis by (simp add: exit_status_def)
qed

theorem not_modified_no_write_witness:
  "http_mode
     (sample_world (Some (Inr (sample_meta ''http://a/b'' ''v1'')))
        (Inr (sample_response 304 ''304 Not Modified'')) None)
     (sample_flags True False [''http://a/b'', ''ds''])
     (sample_meta ''http://a/b'' ''v1'') ''http://a/b''
   \<and> main
       (sample_world (Some (Inr (sample_meta ''http://a/b'' ''v1'')))
          (Inr (sample_response 304 ''304 Not Modified'')) None)
       (sample_flags True False [''http://a/b'', ''ds''])
     = ([HttpGet ''http://a/b'' [''If-None-Match'' \<mapsto> ''v1''],
         Stdout ''Content unchanged since last fetch, no commit made'',
         DbClose], Returned)"
proof -
  let ?w = "sample_world (Some (Inr (sample_meta ''http://a/b'' ''v1'')))
              (Inr (sample_response 304 ''304 Not Modified'')) None"
  let ?fl = "sample_flags True False [''http://a/b'', ''ds'']"
  let ?rootMeta = "sample_meta ''http://a/b'' ''v1''"
  have h1: "http_mode ?w ?fl ?rootMeta ''http://a/b''" by (simp add: sample_defs)
  have h2: "newRequest ?w ''http://a/b'' = None" by (simp add: sample_defs)
  have h3: "httpDo ?w ''http://a/b'' (requestHeader ?rootMeta ''http://a/b'')
              = Inr (sample_response 304 ''304 Not Modified'')"
    by (simp add: sample_defs)
  have h4: "StatusCode (sample_response 304 ''304 Not Modified'') = 304"
    by (simp add: sample_defs)
  have "requestHeader ?rootMeta ''http://a/b'' = [''If-None-Match'' \<mapsto> ''v1'']"
    by (simp add: requestHeader_def sample_defs)
  with not_modified_no_write[OF h1 h2 h3 h4] h1 show ?thesis by simp
qed

text \<open>
  Claim C2. In commit mode, a \<^verbatim>\<open>db.Commit\<close> that fails is attempted once only and
  leaves the head where it was. When the failure is \<^verbatim>\<open>ErrMergeNeeded\<close> the run reports
  the optimistic-concurrency conflict on standard error and returns. For any other failure
  the check \<^verbatim>\<open>d.Chk.Equal(datas.ErrMergeNeeded, err)\<close> fails: the run stops there with
  a non-zero status, the failure itself is what is reported, and the conflict message is
  not printed.
\<close>

theorem commit_failure:
  assumes "starts w fl rootMeta"
    and "performCommit fl"
    and "resolveSource w fl rootMeta = (es, Inr d)"
    and "createCommitMeta w (additionalMetaInfo d) = None"
    and "commit w (newBlob w (r d)) (additionalMetaInfo d) = Some err"
  shows "length (filter is_commit (fst (main w fl))) = 1
         \<and> headPtr (store_after (fst (main w fl)) st) = headPtr st
         \<and> (if err = ErrMergeNeeded
            then snd (main w fl) = Returned
                 \<and> (\<exists>pre. fst (main w fl) =
                       pre @ [Stderr ''Could not commit, optimistic concurrency failed.'', DbClose])
            else snd (main w fl) = Panicked
                 \<and> exit_status (snd (main w fl)) \<noteq> 0
                 \<and> (\<exists>pre. fst (main w fl) = pre @ [ChkFailed ErrMergeNeeded err, DbClose])
                 \<and> Stderr ''Could not commit, optimistic concurrency failed.''
                       \<notin> set (fst (main w fl)))"
proof -
  have nw: "filter is_write es = []"
    using resolveSource_no_write[of w fl rootMeta] assms(3) by simp
  then have nc: "filter is_commit es = []" by (rule no_write_no_commit)
  let ?r' = "if \<not> noProgress fl then Progress (r d) (contentLength d) else r d"
  let ?b = "newBlob w (r d)"
  let ?m = "additionalMetaInfo d"
  let ?e = "if ErrMergeNeeded \<noteq> err then ChkFailed ErrMergeNeeded err
            else Stderr ''Could not commit, optimistic concurrency failed.''"
  let ?pre = "es @ [NewBlob ?r', CreateCommitMeta ?m, Commit ?b ?m (Some err)]"
  have m: "main w fl =
      (es @ [NewBlob ?r', CreateCommitMeta ?m, Commit ?b ?m (Some err), ?e, DbClose],
       if ErrMergeNeeded \<noteq> err then Panicked else Returned)"
    using starts_main[OF assms(1)] assms(3) finalize_commit_fails[OF assms(2,4,5)]
    by simp
  have 1: "length (filter is_commit (fst (main w fl))) = 1"
    by (simp add: m nc)
  have "headPtr (store_after (fst (main w fl)) st) = headPtr (store_after es st)"
    unfolding m fst_conv by (rule headPtr_failed_commit) simp
  then have 2: "headPtr (store_after (fst (main w fl)) st) = headPtr st"
    by (simp add: headPtr_no_commit[OF nc])
  have 3: "fst (main w fl) = ?pre @ [?e, DbClose]"
    by (simp add: m)
  show ?thesis
  proof (cases "err = ErrMergeNeeded")
    case True
    then have "snd (main w fl) = Returned" by (simp add: m)
    moreover have "\<exists>pre. fst (main w fl) =
        pre @ [Stderr ''Could not commit, optimistic concurrency failed.'', DbClose]"
      using 3 True by (intro exI[of _ ?pre]) simp
    ultimately show ?thesis using 1 2 True by simp
  next
    case False
    then have "snd (main w fl) = Panicked" using False by (auto simp add: m)
    moreover have "\<exists>pre. fst (main w fl) = pre @ [ChkFailed ErrMergeNeeded err, DbClose]"
      using 3 False by (intro exI[of _ ?pre]) auto
    moreover have "Stderr ''Could not commit, optimistic concurrency failed.''
                     \<notin> set (fst (main w fl))"
      using resolveSource_ok_quiet[OF assms(3)] False by (auto simp add: m)
    ultimately show ?thesis using 1 2 False by (simp add: exit_status_def)
  qed
qed

theorem commit_failure_witness:
  "starts (sample_world None (Inl ''unused'') (Some ErrMergeNeeded))
      (sample_flags True True [''ds'']) zero_meta
   \<and> performCommit (sample_flags True True [''ds''])
   \<and> snd (main (sample_world None (Inl ''unused'') (Some ErrMergeNeeded))
             (sample_flags True True [''ds''])) = Returned
   \<and> (\<exists>pre. fst (main (sample_world None (Inl ''unused'') (Some ErrMergeNeeded))
                    (sample_flags True True [''ds'']))
             = pre @ [Stderr ''Could not commit, optimistic concurrency failed.'', DbClose])
   \<and> starts (sample_world None (Inl ''unused'') (Some (CommitFailure ''disk full'')))
      (sample_flags True True [''ds'']) zero_meta
   \<and> snd (main (sample_world None (Inl ''unused'') (Some (CommitFailure ''disk full'')))
             (sample_flags True True [''ds''])) = Panicked
   \<and> (\<exists>pre. fst (main (sample_world None (Inl ''unused'') (Some (CommitFailure ''disk full'')))
                    (sample_flags True True [''ds'']))
             = pre @ [ChkFailed ErrMergeNeeded (CommitFailure ''disk full''), DbClose])"
proof -
  let ?w1 = "sample_world None (Inl ''unused'') (Some ErrMergeNeeded)"
  let ?w2 = "sample_world None (Inl ''unused'') (Some (CommitFailure ''disk full''))"
  let ?fl = "sample_flags True True [''ds'']"
  let ?d = "\<lparr>r = Stdin, contentLength = - 1, additionalMetaInfo = Map.empty\<rparr>"
  let ?st = "\<lparr>looseValues = {}, headPtr = None\<rparr>"
  have s1: "starts ?w1 ?fl zero_meta" and s2: "starts ?w2 ?fl zero_meta"
    by (simp_all add: sample_defs)
  have p: "performCommit ?fl" by (simp add: sample_defs)
  have r1: "resolveSource ?w1 ?fl zero_meta = ([], Inr ?d)"
    and r2: "resolveSource ?w2 ?fl zero_meta = ([], Inr ?d)"
    by (simp_all add: resolveSource_def sample_defs)
  have m1: "createCommitMeta ?w1 (additionalMetaInfo ?d) = None"
    and m2: "createCommitMeta ?w2 (additionalMetaInfo ?d) = None"
    by (simp_all add: sample_defs)
  have c1: "commit ?w1 (newBlob ?w1 (r ?d)) (additionalMetaInfo ?d) = Some ErrMergeNeeded"
    and c2: "commit ?w2 (newBlob ?w2 (r ?d)) (additionalMetaInfo ?d)
               = Some (CommitFailure ''disk full'')"
    by (simp_all add: sample_defs)
  from commit_failure[OF s1 p r1 m1 c1, of ?st] commit_failure[OF s2 p r2 m2 c2, of ?st]
       s1 s2 p
  show ?thesis by simp
qed

text \<open>
  Claim C3 says that every terminal error is reported and ends the process with a
  non-zero status. The run below gets a 404 from the server: the error is reported on
  standard error, and then \<^verbatim>\<open>main\<close> returns, so that the process ends with
  status 0. The paths through \<^verbatim>\<open>d.CheckErrorNoUsage\<close> and the argument check do call
  \<^verbatim>\<open>exit.Fail()\<close>.
\<close>

theorem fetch_error_exit_status:
  "main (sample_world None (Inr (sample_response 404 ''404 Not Found'')) None)
        (sample_flags True False [''http://a/b'', ''ds''])
   = ([HttpGet ''http://a/b'' Map.empty,
       Stderr (''Could not fetch url http://a/b, error: 404 (404 Not Found)'' @ nl),
       DbClose], Returned)
   \<and> exit_status Returned = 0"
  by (simp add: main_def body_def loadHead_def resolveSource_def fetchHttp_def requestHeader_def
      sample_world_def sample_flags_def sample_response_def NArg_def Arg_def HasPrefix_def
      zero_meta_def go_quot_def itoa_def utoa.simps exit_status_def)

text \<open>
  Claim C4 says that a zero duration is treated as a zero rate. \<^verbatim>\<open>getStatusPrinter\<close>
  has no branch on the duration: after no time at all the quotient is \<open>+Inf\<close> (or
  \<open>NaN\<close> when no byte was seen), nothing faults, and the rate is whatever the conversion
  to \<^verbatim>\<open>uint64\<close> makes of it. With one byte seen after a duration of zero, on amd64,
  the rate is \<open>2^63\<close>, and that is the rate the line shows; the line has the layout the
  claim gives.
\<close>

theorem zero_elapsed_rate:
  "rate cvt_amd64 0 1 = 9223372036854775808
   \<and> getStatusPrinter Bytes cvt_amd64 (- 1) 0 1
       = Bytes 1 @ '' of (unknown) written in 0s ('' @ Bytes 9223372036854775808 @ ''/s)...''"
  by (simp add: getStatusPrinter_def rate_zero_elapsed cvt_amd64_def uint64_of_float64_def
      Seconds_def utoa.simps)

text \<open>
  Claim C5. In HTTP mode, once the request is built, the run starts with one GET of the
  URL and sends no other; that request carries \<^verbatim>\<open>If-None-Match\<close> exactly when the
  stored URL equals the requested URL and the stored etag is not empty, and the header's
  value is then the stored etag.
\<close>

theorem if_none_match_iff:
  assumes "http_mode w fl rootMeta url"
    and "newRequest w url = None"
  shows "\<exists>hdr rest. fst (main w fl) = HttpGet url hdr # rest
           \<and> filter is_http rest = []
           \<and> (hdr ''If-None-Match'' \<noteq> None \<longleftrightarrow> URL rootMeta = url \<and> Etag rootMeta \<noteq> [])
           \<and> (hdr ''If-None-Match'' \<noteq> None \<longrightarrow> hdr ''If-None-Match'' = Some (Etag rootMeta))"
proof -
  from http_mode_resolve[OF assms(1)]
  have s: "starts w fl rootMeta" and rs: "resolveSource w fl rootMeta = fetchHttp w rootMeta url"
    by simp_all
  from fetchHttp_sends[OF assms(2)] obtain rest1 where
    f: "fst (fetchHttp w rootMeta url) = HttpGet url (requestHeader rootMeta url) # rest1"
    and n1: "filter is_http rest1 = []" by blast
  from main_events[OF s] rs obtain rest2 where
    m: "fst (main w fl) = fst (fetchHttp w rootMeta url) @ rest2"
    and n2: "filter is_http rest2 = []" by auto
  have "fst (main w fl) = HttpGet url (requestHeader rootMeta url) # (rest1 @ rest2)"
    using f m by simp
  moreover have "filter is_http (rest1 @ rest2) = []"
    using n1 n2 by simp
  ultimately show ?thesis
    using requestHeader_lookup[of rootMeta url] by (intro exI[of _ "requestHeader rootMeta url"] exI[of _ "rest1 @ rest2"]) simp
qed

theorem if_none_match_iff_witness:
  "http_mode
     (sample_world (Some (Inr (sample_meta ''http://a/b'' ''v1'')))
        (Inr (sample_response 200 ''200 OK'')) None)
     (sample_flags True False [''http://a/b'', ''ds''])
     (sample_meta ''http://a/b'' ''v1'') ''http://a/b''
   \<and> (\<exists>hdr rest.
        fst (main
               (sample_world (Some (Inr (sample_meta ''http://a/b'' ''v1'')))
                  (Inr (sample_response 200 ''200 OK'')) None)
               (sample_flags True False [''http://a/b'', ''ds'']))
          = HttpGet ''http://a/b'' hdr # rest
        \<and> hdr ''If-None-Match'' = Some ''v1'')"
proof -
  let ?w = "sample_world (Some (Inr (sample_meta ''http://a/b'' ''v1'')))
              (Inr (sample_response 200 ''200 OK'')) None"
  let ?fl = "sample_flags True False [''http://a/b'', ''ds'']"
  let ?rootMeta = "sample_meta ''http://a/b'' ''v1''"
  have h1: "http_mode ?w ?fl ?rootMeta ''http://a/b''" by (simp add: sample_defs)
  have h2: "newRequest ?w ''http://a/b'' = None" by (simp add: sample_defs)
  have u: "URL ?rootMeta = ''http://a/b''" and e: "Etag ?rootMeta = ''v1''"
    by (simp_all add: sample_defs)
  from if_none_match_iff[OF h1 h2] obtain hdr rest where
    m: "fst (main ?w ?fl) = HttpGet ''http://a/b'' hdr # rest"
    and a: "hdr ''If-None-Match'' \<noteq> None \<longleftrightarrow> URL ?rootMeta = ''http://a/b'' \<and> Etag ?rootMeta \<noteq> []"
    and v: "hdr ''If-None-Match'' \<noteq> None \<longrightarrow> hdr ''If-None-Match'' = Some (Etag ?rootMeta)"
    by blast
  from a u e have "hdr ''If-None-Match'' \<noteq> None" by simp
  with v e have "hdr ''If-None-Match'' = Some ''v1''" by simp
  with m h1 show ?thesis by blast
qed

text \<open>
  Claim C6. In HTTP mode, a response whose status code lies in 400..599 makes the run
  print the URL, the status code and the status text on standard error and return; the
  run writes nothing to the store.
\<close>

theorem http_error_status_aborts:
  assumes "http_mode w fl rootMeta url"
    and "newRequest w url = None"
    and "httpDo w url (requestHeader rootMeta url) = Inr resp"
    and "400 \<le> StatusCode resp" and "StatusCode resp \<le> 599"
  shows "main w fl =
           ([HttpGet url (requestHeader rootMeta url),
             Stderr (''Could not fetch url '' @ url @ '', error: ''
                     @ itoa (StatusCode resp) @ '' ('' @ Status resp @ '')'' @ nl),
             DbClose], Returned)
         \<and> filter is_write (fst (main w fl)) = []"
proof -
  from http_mode_resolve[OF assms(1)]
  have s: "starts w fl rootMeta" and rs: "resolveSource w fl rootMeta = fetchHttp w rootMeta url"
    by simp_all
  have ne: "StatusCode resp \<noteq> 304" using assms(4) by simp
  have "fetchHttp w rootMeta url =
     ([HttpGet url (requestHeader rootMeta url),
       Stderr (''Could not fetch url '' @ url @ '', error: ''
               @ itoa (StatusCode resp) @ '' ('' @ Status resp @ '')'' @ nl)], Inl Returned)"
    using assms(2,3) ne go_quot_4xx_5xx[OF assms(4,5)] by (auto simp add: fetchHttp_def)
  with starts_main[OF s] rs show ?thesis by simp
qed

theorem http_error_status_aborts_witness:
  "http_mode
     (sample_world None (Inr (sample_response 503 ''503 Service Unavailable'')) None)
     (sample_flags True False [''http://a/b'', ''ds'']) zero_meta ''http://a/b''
   \<and> main
       (sample_world None (Inr (sample_response 503 ''503 Service Unavailable'')) None)
       (sample_flags True False [''http://a/b'', ''ds''])
     = ([HttpGet ''http://a/b'' Map.empty,
         Stderr (''Could not fetch url http://a/b, error: 503 (503 Service Unavailable)'' @ nl),
         DbClose], Returned)"
proof -
  let ?resp = "sample_response 503 ''503 Service Unavailable''"
  let ?w = "sample_world None (Inr ?resp) None"
  let ?fl = "sample_flags True False [''http://a/b'', ''ds'']"
  have h1: "http_mode ?w ?fl zero_meta ''http://a/b''" by (simp add: sample_defs)
  have h2: "newRequest ?w ''http://a/b'' = None" by (simp add: sample_defs)
  have h3: "httpDo ?w ''http://a/b'' (requestHeader zero_meta ''http://a/b'') = Inr ?resp"
    by (simp add: sample_defs)
  have h4: "400 \<le> StatusCode ?resp" and h5: "StatusCode ?resp \<le> 599"
    by (simp_all add: sample_defs)
  have e: "requestHeader zero_meta ''http://a/b'' = Map.empty"
    by (simp add: requestHeader_def sample_defs)
  have i: "itoa (StatusCode ?resp) = ''503''"
    by (simp add: sample_defs itoa_def utoa.simps)
  have s: "Status ?resp = ''503 Service Unavailable''" by (simp add: sample_defs)
  from http_error_status_aborts[OF h1 h2 h3 h4 h5] h1 show ?thesis
    unfolding e i s by simp
qed

text \<open>
  Claim C7. With \<^verbatim>\<open>--commit=false\<close>, a run whose source is resolved returns, leaves
  the head of the dataset where it was, adds the blob to the store as a loose value,
  builds no commit metadata, commits nothing, and ends its output with the line
  \<^verbatim>\<open>#<hash>\<close> on standard output.
\<close>

theorem write_only_keeps_head:
  assumes "starts w fl rootMeta"
    and "\<not> performCommit fl"
    and "resolveSource w fl rootMeta = (es, Inr d)"
  shows "snd (main w fl) = Returned
         \<and> headPtr (store_after (fst (main w fl)) st) = headPtr st
         \<and> looseValues (store_after (fst (main w fl)) st)
             = insert (newBlob w (r d)) (looseValues st)
         \<and> filter is_commit (fst (main w fl)) = []
         \<and> (\<forall>m. CreateCommitMeta m \<notin> set (fst (main w fl)))
         \<and> (\<exists>pre. fst (main w fl) = pre @ [Stdout (''#'' @ newBlob w (r d) @ nl), DbClose])"
proof -
  have nw: "filter is_write es = []"
    using resolveSource_no_write[of w fl rootMeta] assms(3) by simp
  then have nc: "filter is_commit es = []" by (rule no_write_no_commit)
  have nm: "\<And>m. CreateCommitMeta m \<notin> set es"
  proof
    fix m assume "CreateCommitMeta m \<in> set es"
    then have "CreateCommitMeta m \<in> set (filter is_write es)" by simp
    with nw show False by simp
  qed
  let ?r' = "if \<not> noProgress fl then Progress (r d) (contentLength d) else r d"
  let ?b = "newBlob w (r d)"
  have m: "main w fl =
      (es @ [NewBlob ?r', WriteValue ?b]
          @ (if \<not> noProgress fl then [StatusClear] else [])
          @ [Stdout (''#'' @ ?b @ nl), DbClose], Returned)"
    using starts_main[OF assms(1)] assms(3) finalize_write_only[OF assms(2), of w d]
    by simp
  have 1: "snd (main w fl) = Returned" by (simp add: m)
  have 4: "filter is_commit (fst (main w fl)) = []" by (simp add: m nc)
  have 2: "headPtr (store_after (fst (main w fl)) st) = headPtr st"
    using 4 by (rule headPtr_no_commit)
  have 3: "looseValues (store_after (fst (main w fl)) st) = insert ?b (looseValues st)"
    by (simp add: m store_after_append store_after_no_write[OF nw]) (simp add: store_after_def)
  have 5: "\<forall>m. CreateCommitMeta m \<notin> set (fst (main w fl))"
    using nm by (simp add: m)
  have 6: "\<exists>pre. fst (main w fl) = pre @ [Stdout (''#'' @ ?b @ nl), DbClose]"
    by (rule exI[of _ "es @ [NewBlob ?r', WriteValue ?b]
          @ (if \<not> noProgress fl then [StatusClear] else [])"]) (simp add: m)
  from 1 2 3 4 5 6 show ?thesis by blast
qed

theorem write_only_keeps_head_witness:
  "starts (sample_world None (Inl ''unused'') None) (sample_flags False True [''ds'']) zero_meta
   \<and> \<not> performCommit (sample_flags False True [''ds''])
   \<and> main (sample_world None (Inl ''unused'') None) (sample_flags False True [''ds''])
       = ([NewBlob (Progress Stdin (- 1)), WriteValue ''8vbfm3'', StatusClear,
           Stdout (''#8vbfm3'' @ nl), DbClose], Returned)
   \<and> headPtr (store_after
         (fst (main (sample_world None (Inl ''unused'') None) (sample_flags False True [''ds''])))
         \<lparr>looseValues = {}, headPtr = Some ''old''\<rparr>) = Some ''old''
   \<and> looseValues (store_after
         (fst (main (sample_world None (Inl ''unused'') None) (sample_flags False True [''ds''])))
         \<lparr>looseValues = {}, headPtr = Some ''old''\<rparr>) = {''8vbfm3''}"
proof -
  let ?w = "sample_world None (Inl ''unused'') None"
  let ?fl = "sample_flags False True [''ds'']"
  let ?d = "\<lparr>r = Stdin, contentLength = - 1, additionalMetaInfo = Map.empty\<rparr>"
  let ?st = "\<lparr>looseValues = {}, headPtr = Some ''old''\<rparr>"
  have h1: "starts ?w ?fl zero_meta" by (simp add: sample_defs)
  have h2: "\<not> performCommit ?fl" by (simp add: sample_defs)
  have h3: "resolveSource ?w ?fl zero_meta = ([], Inr ?d)"
    by (simp add: resolveSource_def sample_defs)
  have m: "main ?w ?fl = ([NewBlob (Progress Stdin (- 1)), WriteValue ''8vbfm3'', StatusClear,
           Stdout (''#8vbfm3'' @ nl), DbClose], Returned)"
    by (simp add: main_def body_def resolveSource_def finalize_def sample_defs)
  have b: "newBlob ?w (r ?d) = ''8vbfm3''" by (simp add: sample_defs)
  from write_only_keeps_head[OF h1 h2 h3, of ?st] h1 h2 m show ?thesis
    unfolding b by simp
qed

text \<open>
  Claim C8. Of a run that gets as far as choosing its source: with \<^verbatim>\<open>--stdin\<close> the
  source is standard input, with length \<open>-1\<close> (unknown) and no metadata key, whatever
  the arguments are, and the run goes straight on to build the blob from it, with neither
  a request nor a file. Without \<^verbatim>\<open>--stdin\<close>, when the first argument begins with the
  four characters \<^verbatim>\<open>http\<close> the run builds a request for it and starts with the GET
  of that URL (or reports that the request cannot be built), and opens no file; in every
  other case the run starts by opening the argument as a file, and sends no request.
\<close>

theorem source_kind:
  assumes "starts w fl rootMeta"
  shows
  "(stdin fl \<longrightarrow>
      resolveSource w fl rootMeta =
        ([], Inr \<lparr>r = Stdin, contentLength = - 1, additionalMetaInfo = Map.empty\<rparr>)
      \<and> (\<exists>rest. fst (main w fl) =
            NewBlob (if \<not> noProgress fl then Progress Stdin (- 1) else Stdin)
            # (if performCommit fl then CreateCommitMeta Map.empty # rest
               else WriteValue (newBlob w Stdin) # rest))
      \<and> filter is_http (fst (main w fl)) = []
      \<and> filter is_file (fst (main w fl)) = [])
   \<and> (\<not> stdin fl \<and> (\<exists>rest. Arg fl 0 = ''http'' @ rest) \<longrightarrow>
        resolveSource w fl rootMeta = fetchHttp w rootMeta (Arg fl 0)
        \<and> (case newRequest w (Arg fl 0) of
              None \<Rightarrow>
                (\<exists>rest. fst (main w fl) =
                   HttpGet (Arg fl 0) (requestHeader rootMeta (Arg fl 0)) # rest)
            | Some err \<Rightarrow>
                main w fl =
                  ([Stderr (''Could not build http request for url '' @ Arg fl 0
                            @ '', error: '' @ err @ nl),
                    DbClose], Returned))
        \<and> filter is_file (fst (main w fl)) = []
        \<and> (\<forall>d. snd (resolveSource w fl rootMeta) = Inr d \<longrightarrow> r d = Body (Arg fl 0)))
   \<and> (\<not> stdin fl \<and> \<not> (\<exists>rest. Arg fl 0 = ''http'' @ rest) \<longrightarrow>
        resolveSource w fl rootMeta = openFile w (Arg fl 0)
        \<and> (\<exists>rest. fst (main w fl) = OpenFile (Arg fl 0) # rest)
        \<and> filter is_http (fst (main w fl)) = []
        \<and> (\<forall>d. snd (resolveSource w fl rootMeta) = Inr d \<longrightarrow> r d = FileReader (Arg fl 0)))"
proof (intro conjI impI)
  assume s: "stdin fl"
  let ?d = "\<lparr>r = Stdin, contentLength = - 1, additionalMetaInfo = Map.empty\<rparr>"
  show e: "resolveSource w fl rootMeta = ([], Inr ?d)"
    using s by (simp add: resolveSource_def)
  from main_resolved[OF assms e] obtain rest1 where
    m: "fst (main w fl) = fst (finalize w fl ?d) @ rest1" by auto
  have "\<exists>rest2. fst (finalize w fl ?d) =
          NewBlob (if \<not> noProgress fl then Progress Stdin (- 1) else Stdin)
          # (if performCommit fl then CreateCommitMeta Map.empty # rest2
             else WriteValue (newBlob w Stdin) # rest2)"
    by (simp add: finalize_def Let_def split: option.splits)
  then obtain rest2 where
    f: "fst (finalize w fl ?d) =
          NewBlob (if \<not> noProgress fl then Progress Stdin (- 1) else Stdin)
          # (if performCommit fl then CreateCommitMeta Map.empty # rest2
             else WriteValue (newBlob w Stdin) # rest2)"
    by blast
  show "\<exists>rest. fst (main w fl) =
            NewBlob (if \<not> noProgress fl then Progress Stdin (- 1) else Stdin)
            # (if performCommit fl then CreateCommitMeta Map.empty # rest
               else WriteValue (newBlob w Stdin) # rest)"
    by (rule exI[of _ "rest2 @ rest1"]) (simp add: m f)
  from main_after_resolve[OF assms] e obtain rest where
    "fst (main w fl) = rest" and "filter is_http rest = []" and "filter is_file rest = []"
    by auto
  then show "filter is_http (fst (main w fl)) = []" and "filter is_file (fst (main w fl)) = []"
    by simp_all
next
  assume a: "\<not> stdin fl \<and> (\<exists>rest. Arg fl 0 = ''http'' @ rest)"
  then have p: "HasPrefix (Arg fl 0) ''http''" by (simp add: HasPrefix_iff)
  with a show e: "resolveSource w fl rootMeta = fetchHttp w rootMeta (Arg fl 0)"
    by (simp add: resolveSource_def)
  from main_after_resolve[OF assms] e obtain rest where
    m: "fst (main w fl) = fst (fetchHttp w rootMeta (Arg fl 0)) @ rest"
    and nf: "filter is_file rest = []"
    by auto
  show "case newRequest w (Arg fl 0) of
              None \<Rightarrow>
                (\<exists>rest. fst (main w fl) =
                   HttpGet (Arg fl 0) (requestHeader rootMeta (Arg fl 0)) # rest)
            | Some err \<Rightarrow>
                main w fl =
                  ([Stderr (''Could not build http request for url '' @ Arg fl 0
                            @ '', error: '' @ err @ nl),
                    DbClose], Returned)"
  proof (cases "newRequest w (Arg fl 0)")
    case None
    from fetchHttp_sends[OF None] obtain rest1 where
      "fst (fetchHttp w rootMeta (Arg fl 0)) =
         HttpGet (Arg fl 0) (requestHeader rootMeta (Arg fl 0)) # rest1"
      by blast
    with m have "fst (main w fl) =
        HttpGet (Arg fl 0) (requestHeader rootMeta (Arg fl 0)) # (rest1 @ rest)"
      by simp
    then show ?thesis using None by auto
  next
    case (Some err)
    from fetchHttp_not_built[OF Some] starts_main[OF assms] e
    show ?thesis using Some by simp
  qed
  show "filter is_file (fst (main w fl)) = []"
    by (simp add: m nf fetchHttp_no_file)
  show "\<forall>d. snd (resolveSource w fl rootMeta) = Inr d \<longrightarrow> r d = Body (Arg fl 0)"
    by (simp add: e fetchHttp_reader)
next
  assume a: "\<not> stdin fl \<and> \<not> (\<exists>rest. Arg fl 0 = ''http'' @ rest)"
  then have p: "\<not> HasPrefix (Arg fl 0) ''http''" by (simp add: HasPrefix_iff)
  with a show e: "resolveSource w fl rootMeta = openFile w (Arg fl 0)"
    by (simp add: resolveSource_def)
  from main_after_resolve[OF assms] e obtain rest where
    m: "fst (main w fl) = fst (openFile w (Arg fl 0)) @ rest"
    and nh: "filter is_http rest = []"
    by auto
  from openFile_opens[of w "Arg fl 0"] obtain rest1 where
    "fst (openFile w (Arg fl 0)) = OpenFile (Arg fl 0) # rest1" by blast
  with m have "fst (main w fl) = OpenFile (Arg fl 0) # (rest1 @ rest)" by simp
  then show "\<exists>rest. fst (main w fl) = OpenFile (Arg fl 0) # rest" by blast
  show "filter is_http (fst (main w fl)) = []"
    by (simp add: m nh openFile_no_http)
  show "\<forall>d. snd (resolveSource w fl rootMeta) = Inr d \<longrightarrow> r d = FileReader (Arg fl 0)"
    by (simp add: e openFile_reader)
qed

theorem source_kind_witness:
  "starts (sample_world None (Inl ''unused'') None)
      (sample_flags True True [''x'', ''ds'']) zero_meta
   \<and> stdin (sample_flags True True [''x'', ''ds''])
   \<and> (\<exists>rest. fst (main (sample_world None (Inl ''unused'') None)
                       (sample_flags True True [''x'', ''ds'']))
              = NewBlob (Progress Stdin (- 1)) # CreateCommitMeta Map.empty # rest)
   \<and> starts (sample_world None (Inl ''unused'') None)
      (sample_flags True False [''httpx'', ''ds'']) zero_meta
   \<and> \<not> stdin (sample_flags True False [''httpx'', ''ds''])
   \<and> (\<exists>rest. Arg (sample_flags True False [''httpx'', ''ds'']) 0 = ''http'' @ rest)
   \<and> (\<exists>rest. fst (main (sample_world None (Inl ''unused'') None)
                       (sample_flags True False [''httpx'', ''ds'']))
              = HttpGet ''httpx'' Map.empty # rest)
   \<and> starts (sample_world None (Inl ''unused'') None)
      (sample_flags True False [''ftp://http'', ''ds'']) zero_meta
   \<and> \<not> stdin (sample_flags True False [''ftp://http'', ''ds''])
   \<and> (\<nexists>rest. Arg (sample_flags True False [''ftp://http'', ''ds'']) 0 = ''http'' @ rest)
   \<and> (\<exists>rest. fst (main (sample_world None (Inl ''unused'') None)
                       (sample_flags True False [''ftp://http'', ''ds'']))
              = OpenFile ''ftp://http'' # rest)"
proof -
  let ?w = "sample_world None (Inl ''unused'') None"
  let ?A = "sample_flags True True [''x'', ''ds'']"
  let ?B = "sample_flags True False [''httpx'', ''ds'']"
  let ?C = "sample_flags True False [''ftp://http'', ''ds'']"
  have sa: "starts ?w ?A zero_meta" and sb: "starts ?w ?B zero_meta"
    and sc: "starts ?w ?C zero_meta"
    by (simp_all add: sample_defs)
  have a: "stdin ?A" and np: "noProgress ?A = False" and pc: "performCommit ?A = True"
    by (simp_all add: sample_flags_def)
  have b: "\<not> stdin ?B"
    and b': "\<exists>rest. Arg ?B 0 = ''http'' @ rest"
    and b'': "Arg ?B 0 = ''httpx''"
    by (simp_all add: sample_flags_def Arg_def)
  have nr: "newRequest ?w ''httpx'' = None" by (simp add: sample_world_def)
  have rh: "requestHeader zero_meta ''httpx'' = Map.empty"
    by (simp add: requestHeader_def zero_meta_def)
  have c: "\<not> stdin ?C"
    and c': "\<nexists>rest. Arg ?C 0 = ''http'' @ rest"
    and c'': "Arg ?C 0 = ''ftp://http''"
    by (simp_all add: sample_flags_def Arg_def)
  from source_kind[OF sa] a
  have "\<exists>rest. fst (main ?w ?A) =
            NewBlob (if \<not> noProgress ?A then Progress Stdin (- 1) else Stdin)
            # (if performCommit ?A then CreateCommitMeta Map.empty # rest
               else WriteValue (newBlob ?w Stdin) # rest)"
    by blast
  then have 1: "\<exists>rest. fst (main ?w ?A)
                  = NewBlob (Progress Stdin (- 1)) # CreateCommitMeta Map.empty # rest"
    unfolding np pc by simp
  from source_kind[OF sb] b b'
  have "case newRequest ?w (Arg ?B 0) of
              None \<Rightarrow>
                (\<exists>rest. fst (main ?w ?B) =
                   HttpGet (Arg ?B 0) (requestHeader zero_meta (Arg ?B 0)) # rest)
            | Some err \<Rightarrow>
                main ?w ?B =
                  ([Stderr (''Could not build http request for url '' @ Arg ?B 0
                            @ '', error: '' @ err @ nl),
                    DbClose], Returned)"
    by blast
  then have 2: "\<exists>rest. fst (main ?w ?B) = HttpGet ''httpx'' Map.empty # rest"
    unfolding b'' nr rh by simp
  from source_kind[OF sc] c c'
  have "\<exists>rest. fst (main ?w ?C) = OpenFile (Arg ?C 0) # rest"
    by blast
  then have 3: "\<exists>rest. fst (main ?w ?C) = OpenFile ''ftp://http'' # rest"
    unfolding c'' .
  from sa a 1 sb b b' 2 sc c c' 3 show ?thesis by blast
qed

text \<open>
  Claim C9. In file mode, when the path cannot be opened, or its size cannot be read,
  the run reports it on standard error and returns without writing anything; otherwise
  the declared length is the size of the file and the metadata is the one pair
  \<^verbatim>\<open>file\<close> \<open>\<mapsto>\<close> path.
\<close>

theorem file_mode_source:
  assumes "file_mode w fl rootMeta url"
  shows "case osOpen w url of
           Some err \<Rightarrow>
             main w fl =
               ([OpenFile url,
                 Stderr (''Invalid URL '' @ url @ '' - does not start with '' @ quote @ ''http''
                         @ quote @ '' and isn'' @ quote @ ''t local file either. fopen error: ''
                         @ err),
                 DbClose], Returned)
             \<and> filter is_write (fst (main w fl)) = []
         | None \<Rightarrow>
             (case fStat w url of
                Inl err \<Rightarrow>
                  main w fl =
                    ([OpenFile url, StatFile url,
                      Stderr (''Could not stat file '' @ url @ '': '' @ err),
                      DbClose], Returned)
                  \<and> filter is_write (fst (main w fl)) = []
              | Inr sz \<Rightarrow>
                  resolveSource w fl rootMeta =
                    ([OpenFile url, StatFile url],
                     Inr \<lparr>r = FileReader url,
                          contentLength = sz,
                          additionalMetaInfo = [''file'' \<mapsto> url]\<rparr>))"
proof -
  from file_mode_resolve[OF assms]
  have s: "starts w fl rootMeta" and rs: "resolveSource w fl rootMeta = openFile w url"
    by simp_all
  show ?thesis
  proof (cases "osOpen w url")
    case (Some err)
    then show ?thesis using starts_main[OF s] rs by (simp add: openFile_def)
  next
    case None
    then show ?thesis using starts_main[OF s] rs
      by (cases "fStat w url") (simp_all add: openFile_def)
  qed
qed

theorem file_mode_source_witness:
  "file_mode (sample_world None (Inl ''unused'') None)
     (sample_flags True False [''/tmp/none'', ''ds'']) zero_meta ''/tmp/none''
   \<and> main (sample_world None (Inl ''unused'') None)
          (sample_flags True False [''/tmp/none'', ''ds''])
       = ([OpenFile ''/tmp/none'',
           Stderr (''Invalid URL /tmp/none - does not start with '' @ quote @ ''http''
                   @ quote @ '' and isn'' @ quote @ ''t local file either. fopen error: ''
                   @ ''no such file''),
           DbClose], Returned)
   \<and> file_mode (sample_world None (Inl ''unused'') None)
     (sample_flags True False [''/tmp/odd'', ''ds'']) zero_meta ''/tmp/odd''
   \<and> main (sample_world None (Inl ''unused'') None)
          (sample_flags True False [''/tmp/odd'', ''ds''])
       = ([OpenFile ''/tmp/odd'', StatFile ''/tmp/odd'',
           Stderr (''Could not stat file /tmp/odd: bad descriptor''),
           DbClose], Returned)
   \<and> file_mode (sample_world None (Inl ''unused'') None)
     (sample_flags True False [''/tmp/data'', ''ds'']) zero_meta ''/tmp/data''
   \<and> resolveSource (sample_world None (Inl ''unused'') None)
          (sample_flags True False [''/tmp/data'', ''ds'']) zero_meta
       = ([OpenFile ''/tmp/data'', StatFile ''/tmp/data''],
          Inr \<lparr>r = FileReader ''/tmp/data'', contentLength = 5,
               additionalMetaInfo = [''file'' \<mapsto> ''/tmp/data'']\<rparr>)"
proof -
  let ?w = "sample_world None (Inl ''unused'') None"
  have a: "file_mode ?w (sample_flags True False [''/tmp/none'', ''ds'']) zero_meta ''/tmp/none''"
    by (simp add: sample_defs)
  have b: "file_mode ?w (sample_flags True False [''/tmp/odd'', ''ds'']) zero_meta ''/tmp/odd''"
    by (simp add: sample_defs)
  have c: "file_mode ?w (sample_flags True False [''/tmp/data'', ''ds'']) zero_meta ''/tmp/data''"
    by (simp add: sample_defs)
  have oa: "osOpen ?w ''/tmp/none'' = Some ''no such file''"
    and ob: "osOpen ?w ''/tmp/odd'' = None" and sb: "fStat ?w ''/tmp/odd'' = Inl ''bad descriptor''"
    and oc: "osOpen ?w ''/tmp/data'' = None" and sc: "fStat ?w ''/tmp/data'' = Inr 5"
    by (simp_all add: sample_world_def)
  from file_mode_source[OF a] file_mode_source[OF b] file_mode_source[OF c] a b c
  show ?thesis unfolding oa ob sb oc sc by simp
qed

text \<open>
  Claim C10. In HTTP mode, a 304 answer ends the run as "content unchanged", with no
  write, also when the request carried no \<^verbatim>\<open>If-None-Match\<close> header, that is when the
  stored URL differs from the requested one or no etag is stored: only the status of
  the response decides.
\<close>

theorem not_modified_without_precondition:
  assumes "http_mode w fl rootMeta url"
    and "newRequest w url = None"
    and "URL rootMeta \<noteq> url \<or> Etag rootMeta = []"
    and "httpDo w url Map.empty = Inr resp"
    and "StatusCode resp = 304"
  shows "main w fl =
           ([HttpGet url Map.empty,
             Stdout ''Content unchanged since last fetch, no commit made'',
             DbClose], Returned)
         \<and> filter is_write (fst (main w fl)) = []"
proof -
  from http_mode_resolve[OF assms(1)]
  have s: "starts w fl rootMeta" and rs: "resolveSource w fl rootMeta = fetchHttp w rootMeta url"
    by simp_all
  have h: "requestHeader rootMeta url = Map.empty"
    using assms(3) by (auto simp: requestHeader_def)
  from fetchHttp_304[of w url rootMeta resp] assms(2,4,5) h
  have "fetchHttp w rootMeta url =
     ([HttpGet url Map.empty,
       Stdout ''Content unchanged since last fetch, no commit made''], Inl Returned)"
    by simp
  with starts_main[OF s] rs show ?thesis by simp
qed

theorem not_modified_without_precondition_witness:
  "http_mode
     (sample_world (Some (Inr (sample_meta ''http://other/c'' ''v1'')))
        (Inr (sample_response 304 ''304 Not Modified'')) None)
     (sample_flags True False [''http://a/b'', ''ds''])
     (sample_meta ''http://other/c'' ''v1'') ''http://a/b''
   \<and> URL (sample_meta ''http://other/c'' ''v1'') \<noteq> ''http://a/b''
   \<and> main
       (sample_world (Some (Inr (sample_meta ''http://other/c'' ''v1'')))
          (Inr (sample_response 304 ''304 Not Modified'')) None)
       (sample_flags True False [''http://a/b'', ''ds''])
     = ([HttpGet ''http://a/b'' Map.empty,
         Stdout ''Content unchanged since last fetch, no commit made'',
         DbClose], Returned)"
proof -
  let ?w = "sample_world (Some (Inr (sample_meta ''http://other/c'' ''v1'')))
              (Inr (sample_response 304 ''304 Not Modified'')) None"
  let ?fl = "sample_flags True False [''http://a/b'', ''ds'']"
  let ?rootMeta = "sample_meta ''http://other/c'' ''v1''"
  have h1: "http_mode ?w ?fl ?rootMeta ''http://a/b''" by (simp add: sample_defs)
  have h2: "newRequest ?w ''http://a/b'' = None" by (simp add: sample_defs)
  have u: "URL ?rootMeta \<noteq> ''http://a/b''" by (simp add: sample_defs)
  then have h3: "URL ?rootMeta \<noteq> ''http://a/b'' \<or> Etag ?rootMeta = []" by simp
  have h4: "httpDo ?w ''http://a/b'' Map.empty = Inr (sample_response 304 ''304 Not Modified'')"
    by (simp add: sample_defs)
  have h5: "StatusCode (sample_response 304 ''304 Not Modified'') = 304"
    by (simp add: sample_defs)
  from not_modified_without_precondition[OF h1 h2 h3 h4 h5] h1 u show ?thesis by simp
qed

end
